theory Spec2Isabelle
  imports Main
begin

section \<open>Data model of app.py\<close>

text \<open>
  A chat message is the dict \<^verbatim>\<open>{"role": ..., "content": ...}\<close> kept in
  \<^verbatim>\<open>st.session_state.messages\<close>. The role is a Python string in the source,
  so it is a string here; the script itself only ever stores the two roles
  \<^verbatim>\<open>"user"\<close> and \<^verbatim>\<open>"assistant"\<close>.
\<close>

record message =
  role :: string
  content :: string

text \<open>
  An entry of \<^verbatim>\<open>chat_history\<close>, the dict
  \<^verbatim>\<open>{"role": ..., "parts": [...]}\<close> handed to the Gemini SDK.
\<close>

record gemini_content =
  gemini_role :: string
  parts :: "string list"

text \<open>
  The two keys of \<^verbatim>\<open>st.session_state\<close> the script uses.
  \<^verbatim>\<open>init_gemini_client\<close> returns \<^verbatim>\<open>None\<close> or \<^verbatim>\<open>True\<close> and the value is
  only ever tested for truth, so it is a bool.
\<close>

record session_state =
  messages :: "message list"
  gemini_configured :: bool

text \<open>
  Python exceptions as values. \<open>IndexError\<close> is what \<^verbatim>\<open>list.pop()\<close> and
  \<^verbatim>\<open>xs[-1]\<close> raise on an empty list; \<open>Exception\<close> stands for any other
  exception class, as raised by the SDK. Both carry \<^verbatim>\<open>str(e)\<close>.
\<close>

datatype exn = IndexError string | Exception string

fun str :: "exn \<Rightarrow> string" where
  "str (IndexError m) = m"
| "str (Exception m) = m"

text \<open>
  The remote SDK is an external collaborator: each of its calls either raises or
  returns an opaque object. \<open>'cfg\<close> is the \<^verbatim>\<open>generation_config\<close> dict (the two
  slider values, passed through unread), \<open>'gm\<close> the \<^verbatim>\<open>GenerativeModel\<close> object,
  \<open>'chat\<close> the chat session, \<open>'resp\<close> the response whose \<^verbatim>\<open>.text\<close> is read.
\<close>

record ('cfg, 'gm, 'chat, 'resp) genai =
  GenerativeModel :: "string \<Rightarrow> 'cfg \<Rightarrow> exn + 'gm"
  start_chat :: "'gm \<Rightarrow> gemini_content list \<Rightarrow> exn + 'chat"
  send_message :: "'chat \<Rightarrow> string \<Rightarrow> exn + 'resp"
  text_of :: "'resp \<Rightarrow> exn + string"

text \<open>
  What one run of the chat-input block does that is visible outside the session
  state: what it renders, and which SDK calls it makes with which arguments.
\<close>

datatype event =
    ChatMarkdown string string
  | StError string
  | GenerativeModelCall string
  | StartChatCall "gemini_content list"
  | SendMessageCall string
  | ResponseTextRead

section \<open>Client initialisation and model discovery\<close>

text \<open>
  \<^verbatim>\<open>os.getenv(k) or st.secrets.get(k, None)\<close>: Python's \<^verbatim>\<open>or\<close> returns its left
  operand when it is truthy (a non-empty string), else the right one.
\<close>

definition py_or :: "string option \<Rightarrow> string option \<Rightarrow> string option" where
  "py_or a b = (if a \<noteq> None \<and> a \<noteq> Some [] then a else b)"

definition init_gemini_client :: "string option \<Rightarrow> string option \<Rightarrow> bool" where
  "init_gemini_client env_key secret_key =
     (let api_key = py_or env_key secret_key
      in if api_key = None \<or> api_key = Some [] then False else True)"

text \<open>A model as \<^verbatim>\<open>genai.list_models()\<close> yields it: the two attributes read.\<close>

record model_info =
  name :: string
  supported_generation_methods :: "string list"

text \<open>
  \<^verbatim>\<open>s.replace(old, new)\<close>: every non-overlapping occurrence of \<open>old\<close>, scanning
  from the left. With an empty \<open>old\<close> Python puts \<open>new\<close> before every character
  and at the end.
\<close>

fun replace :: "string \<Rightarrow> string \<Rightarrow> string \<Rightarrow> string" where
  "replace old new [] = (if old = [] then new else [])"
| "replace old new (c # cs) =
     (if old = [] then new @ c # replace old new cs
      else if take (length old) (c # cs) = old
           then new @ replace old new (drop (length old) (c # cs))
           else c # replace old new cs)"

definition fallback_models :: "string list" where
  "fallback_models = [''gemini-pro'', ''gemini-1.5-pro-latest'', ''gemini-1.5-flash-latest'']"

text \<open>The list comprehension of \<^verbatim>\<open>get_available_models\<close>.\<close>

definition available_of :: "model_info list \<Rightarrow> string list" where
  "available_of models =
     map (\<lambda>m. replace ''models/'' '''' (name m))
       (filter (\<lambda>m. ''generateContent'' \<in> set (supported_generation_methods m)) models)"

text \<open>
  \<^verbatim>\<open>get_available_models\<close>. Its argument is the outcome of iterating
  \<^verbatim>\<open>genai.list_models()\<close>: an exception, or the models listed. The body of the
  \<^verbatim>\<open>try\<close> is \<open>get_available_models_try\<close>; the \<^verbatim>\<open>except Exception\<close> clause
  turns every exception into the fallback list. \<open>Inl\<close> in the result would be an
  exception leaving the function.
\<close>

definition get_available_models_try :: "exn + model_info list \<Rightarrow> exn + string list" where
  "get_available_models_try list_models =
     (case list_models of
        Inl e \<Rightarrow> Inl e
      | Inr models \<Rightarrow>
          (let available = available_of models
           in Inr (if available \<noteq> [] then available else fallback_models)))"

definition get_available_models :: "exn + model_info list \<Rightarrow> exn + string list" where
  "get_available_models list_models =
     (case get_available_models_try list_models of
        Inl e \<Rightarrow> Inr fallback_models
      | Inr result \<Rightarrow> Inr result)"

section \<open>The chat-input block\<close>

text \<open>
  The loop that fills \<^verbatim>\<open>chat_history\<close>: one pass over the messages, appending
  for the roles \<^verbatim>\<open>"user"\<close> and \<^verbatim>\<open>"assistant"\<close>; the if/elif has no else.
\<close>

fun convert_messages :: "message list \<Rightarrow> gemini_content list \<Rightarrow> gemini_content list" where
  "convert_messages [] chat_history = chat_history"
| "convert_messages (msg # msgs) chat_history =
     (if role msg = ''user''
      then convert_messages msgs
             (chat_history @ [\<lparr>gemini_role = ''user'', parts = [content msg]\<rparr>])
      else if role msg = ''assistant''
      then convert_messages msgs
             (chat_history @ [\<lparr>gemini_role = ''model'', parts = [content msg]\<rparr>])
      else convert_messages msgs chat_history)"

text \<open>
  The argument of \<^verbatim>\<open>start_chat\<close>:
  \<^verbatim>\<open>chat_history[:-1] if len(chat_history) > 1 else []\<close>.
\<close>

definition history_arg :: "gemini_content list \<Rightarrow> gemini_content list" where
  "history_arg chat_history =
     (if length chat_history > 1 then butlast chat_history else [])"

text \<open>\<^verbatim>\<open>st.session_state.messages[-1]["content"]\<close>.\<close>

definition last_content :: "message list \<Rightarrow> exn + string" where
  "last_content msgs =
     (if msgs = [] then Inl (IndexError ''list index out of range'')
      else Inr (content (last msgs)))"

text \<open>\<^verbatim>\<open>st.session_state.messages.pop()\<close>, for the list it leaves behind.\<close>

definition pop :: "message list \<Rightarrow> exn + message list" where
  "pop msgs =
     (if msgs = [] then Inl (IndexError ''pop from empty list'')
      else Inr (butlast msgs))"

text \<open>
  The body of the \<^verbatim>\<open>try\<close>. It returns the events up to the point reached and
  either the exception raised there or the message list after the assistant's
  reply was appended.
\<close>

definition generate_response ::
  "('cfg, 'gm, 'chat, 'resp) genai \<Rightarrow> string \<Rightarrow> 'cfg \<Rightarrow> message list
     \<Rightarrow> event list \<times> (exn + message list)" where
  "generate_response api model cfg msgs =
     (case GenerativeModel api model cfg of
        Inl e \<Rightarrow> ([GenerativeModelCall model], Inl e)
      | Inr gemini_model \<Rightarrow>
          (let chat_history = convert_messages msgs [];
               history = history_arg chat_history
           in case start_chat api gemini_model history of
                Inl e \<Rightarrow> ([GenerativeModelCall model, StartChatCall history], Inl e)
              | Inr chat \<Rightarrow>
                  (case last_content msgs of
                     Inl e \<Rightarrow> ([GenerativeModelCall model, StartChatCall history], Inl e)
                   | Inr last_user_message \<Rightarrow>
                       (case send_message api chat last_user_message of
                          Inl e \<Rightarrow>
                            ([GenerativeModelCall model, StartChatCall history,
                              SendMessageCall last_user_message], Inl e)
                        | Inr response \<Rightarrow>
                            (case text_of api response of
                               Inl e \<Rightarrow>
                                 ([GenerativeModelCall model, StartChatCall history,
                                   SendMessageCall last_user_message, ResponseTextRead],
                                  Inl e)
                             | Inr assistant_response \<Rightarrow>
                                 ([GenerativeModelCall model, StartChatCall history,
                                   SendMessageCall last_user_message, ResponseTextRead,
                                   ChatMarkdown ''assistant'' assistant_response],
                                  Inr (msgs @ [\<lparr>role = ''assistant'',
                                                content = assistant_response\<rparr>])))))))"

text \<open>The two texts given to \<^verbatim>\<open>st.error\<close>, their emoji as UTF-8 bytes.\<close>

definition no_key_text :: string where
  "no_key_text =
     [CHR 0xE2, CHR 0x9A, CHR 0xA0, CHR 0xEF, CHR 0xB8, CHR 0x8F]
     @ '' Please configure your Gemini API key in the sidebar to use the chat.''"

definition error_msg :: "exn \<Rightarrow> string" where
  "error_msg e = [CHR 0xE2, CHR 0x9D, CHR 0x8C] @ '' Error: '' @ str e"

text \<open>
  The block run for a submitted prompt: append the user message, then either
  report the missing key and pop, or run the \<^verbatim>\<open>try\<close> and pop in its
  \<^verbatim>\<open>except\<close> handler. \<open>Inl\<close> in the result is an exception that leaves the
  block (only \<^verbatim>\<open>pop\<close> stands outside the \<^verbatim>\<open>try\<close>).
\<close>

definition turn_flow ::
  "('cfg, 'gm, 'chat, 'resp) genai \<Rightarrow> string \<Rightarrow> 'cfg \<Rightarrow> string \<Rightarrow> session_state
     \<Rightarrow> exn + (session_state \<times> event list)" where
  "turn_flow api model cfg prompt s =
     (let msgs1 = messages s @ [\<lparr>role = ''user'', content = prompt\<rparr>];
          shown = [ChatMarkdown ''user'' prompt]
      in if \<not> gemini_configured s
         then (case pop msgs1 of
                 Inl e \<Rightarrow> Inl e
               | Inr msgs2 \<Rightarrow> Inr (s\<lparr>messages := msgs2\<rparr>, shown @ [StError no_key_text]))
         else (case generate_response api model cfg msgs1 of
                 (evs, Inr msgs2) \<Rightarrow> Inr (s\<lparr>messages := msgs2\<rparr>, shown @ evs)
               | (evs, Inl e) \<Rightarrow>
                   (case pop msgs1 of
                      Inl e' \<Rightarrow> Inl e'
                    | Inr msgs3 \<Rightarrow>
                        Inr (s\<lparr>messages := msgs3\<rparr>,
                             shown @ evs @ [StError (error_msg e)]))))"

text \<open>
  \<^verbatim>\<open>if prompt := st.chat_input(...)\<close>: the block runs only for a truthy value,
  that is a non-empty string.
\<close>

definition chat_input ::
  "('cfg, 'gm, 'chat, 'resp) genai \<Rightarrow> string \<Rightarrow> 'cfg \<Rightarrow> string option \<Rightarrow> session_state
     \<Rightarrow> exn + (session_state \<times> event list)" where
  "chat_input api model cfg submitted s =
     (case submitted of
        None \<Rightarrow> Inr (s, [])
      | Some prompt \<Rightarrow>
          if prompt = [] then Inr (s, []) else turn_flow api model cfg prompt s)"

text \<open>The Clear Chat button: \<^verbatim>\<open>st.session_state.messages = []\<close> when clicked.\<close>

definition clear_chat :: "bool \<Rightarrow> session_state \<Rightarrow> session_state" where
  "clear_chat clicked s = (if clicked then s\<lparr>messages := []\<rparr> else s)"

section \<open>Sequences of turns\<close>

text \<open>
  One rerun of the script with a submitted prompt: the SDK's behaviour during that
  rerun, the model name and generation config read from the sidebar, and the prompt.
\<close>

type_synonym ('cfg, 'gm, 'chat, 'resp) turn =
  "('cfg, 'gm, 'chat, 'resp) genai \<times> string \<times> 'cfg \<times> string"

fun run_turns ::
  "('cfg, 'gm, 'chat, 'resp) turn list \<Rightarrow> session_state \<Rightarrow> exn + session_state" where
  "run_turns [] s = Inr s"
| "run_turns ((api, model, cfg, prompt) # ts) s =
     (case turn_flow api model cfg prompt s of
        Inl e \<Rightarrow> Inl e
      | Inr (s', evs) \<Rightarrow> run_turns ts s')"

text \<open>
  The four SDK calls of the \<^verbatim>\<open>try\<close> all return normally on the message list
  \<open>msgs\<close>: model construction, \<^verbatim>\<open>start_chat\<close>, \<^verbatim>\<open>send_message\<close> and the read of
  \<^verbatim>\<open>response.text\<close>.
\<close>

definition remote_calls_succeed ::
  "('cfg, 'gm, 'chat, 'resp) genai \<Rightarrow> string \<Rightarrow> 'cfg \<Rightarrow> message list \<Rightarrow> bool" where
  "remote_calls_succeed api model cfg msgs =
     (case GenerativeModel api model cfg of
        Inl e \<Rightarrow> False
      | Inr gemini_model \<Rightarrow>
          (case start_chat api gemini_model (history_arg (convert_messages msgs [])) of
             Inl e \<Rightarrow> False
           | Inr chat \<Rightarrow>
               (case send_message api chat (content (last msgs)) of
                  Inl e \<Rightarrow> False
                | Inr response \<Rightarrow>
                    (case text_of api response of Inl e \<Rightarrow> False | Inr t \<Rightarrow> True))))"

text \<open>
  Every turn of the sequence is run with the client configured and with all of its
  SDK calls returning normally, each turn starting from the state the one before
  left.
\<close>

fun all_succeed :: "('cfg, 'gm, 'chat, 'resp) turn list \<Rightarrow> session_state \<Rightarrow> bool" where
  "all_succeed [] s = True"
| "all_succeed ((api, model, cfg, prompt) # ts) s =
     (gemini_configured s
      \<and> remote_calls_succeed api model cfg
          (messages s @ [\<lparr>role = ''user'', content = prompt\<rparr>])
      \<and> (case turn_flow api model cfg prompt s of
            Inl e \<Rightarrow> False
          | Inr (s', evs) \<Rightarrow> all_succeed ts s'))"

section \<open>The specification's vocabulary\<close>

text \<open>
  The specification's \<open>projectHistory(log, excludeLast)\<close>, as the source computes it:
  without \<open>excludeLast\<close> the list the loop builds, with it the argument the source
  passes to \<^verbatim>\<open>start_chat\<close>.
\<close>

definition projectHistory :: "message list \<Rightarrow> bool \<Rightarrow> gemini_content list" where
  "projectHistory log excludeLast =
     (if excludeLast then history_arg (convert_messages log [])
      else convert_messages log [])"

text \<open>The roles the specification's data model declares for a message.\<close>

definition declared_role :: "message \<Rightarrow> bool" where
  "declared_role m = (role m = ''user'' \<or> role m = ''assistant'')"

definition declared_roles :: "message list \<Rightarrow> bool" where
  "declared_roles log = list_all declared_role log"

text \<open>
  The specification's elementwise mapping of a message of a declared role:
  user to \<^verbatim>\<open>"user"\<close>, assistant to \<^verbatim>\<open>"model"\<close>, the text unchanged.
\<close>

definition spec_role :: "string \<Rightarrow> string" where
  "spec_role r = (if r = ''user'' then ''user'' else ''model'')"

definition spec_turn :: "message \<Rightarrow> gemini_content" where
  "spec_turn m = \<lparr>gemini_role = spec_role (role m), parts = [content m]\<rparr>"

text \<open>
  The specification's reading of \<open>excludeLast\<close>: the final entry is omitted only when
  the log has more than one entry, otherwise the whole log is projected.
\<close>

definition spec_projectHistory :: "message list \<Rightarrow> bool \<Rightarrow> gemini_content list" where
  "spec_projectHistory log excludeLast =
     map spec_turn (if excludeLast \<and> length log > 1 then butlast log else log)"

text \<open>The log alternates user and assistant, starting with user, for \<open>n\<close> turns.\<close>

definition alternating :: "nat \<Rightarrow> message list \<Rightarrow> bool" where
  "alternating n log = (map role log = concat (replicate n [''user'', ''assistant'']))"

text \<open>The events that are calls into the SDK.\<close>

fun is_remote_call :: "event \<Rightarrow> bool" where
  "is_remote_call (GenerativeModelCall model) = True"
| "is_remote_call (StartChatCall history) = True"
| "is_remote_call (SendMessageCall t) = True"
| "is_remote_call ResponseTextRead = True"
| "is_remote_call (ChatMarkdown r t) = False"
| "is_remote_call (StError t) = False"

section \<open>Concrete SDK behaviours for the scenarios\<close>

text \<open>An SDK whose calls all return, the reply being fixed.\<close>

definition replying_api :: "string \<Rightarrow> (unit, unit, unit, string) genai" where
  "replying_api reply =
     \<lparr>GenerativeModel = (\<lambda>model cfg. Inr ()),
      start_chat = (\<lambda>gm history. Inr ()),
      send_message = (\<lambda>chat t. Inr reply),
      text_of = (\<lambda>response. Inr response)\<rparr>"

text \<open>An SDK whose \<^verbatim>\<open>send_message\<close> raises a quota error.\<close>

definition quota_api :: "(unit, unit, unit, string) genai" where
  "quota_api =
     \<lparr>GenerativeModel = (\<lambda>model cfg. Inr ()),
      start_chat = (\<lambda>gm history. Inr ()),
      send_message = (\<lambda>chat t. Inl (Exception ''429 quota exceeded'')),
      text_of = (\<lambda>response. Inr response)\<rparr>"

text \<open>An SDK whose model construction raises.\<close>

definition no_model_api :: "(unit, unit, unit, string) genai" where
  "no_model_api =
     \<lparr>GenerativeModel = (\<lambda>model cfg. Inl (Exception ''404 model not found'')),
      start_chat = (\<lambda>gm history. Inr ()),
      send_message = (\<lambda>chat t. Inr t),
      text_of = (\<lambda>response. Inr response)\<rparr>"

text \<open>
  An SDK that records what it is given: the chat object is the history passed to
  \<^verbatim>\<open>start_chat\<close>, the response pairs it with the text passed to
  \<^verbatim>\<open>send_message\<close>, and the reply text spells both out.
\<close>

definition recording_api ::
  "(unit, unit, gemini_content list, gemini_content list \<times> string) genai" where
  "recording_api =
     \<lparr>GenerativeModel = (\<lambda>model cfg. Inr ()),
      start_chat = (\<lambda>gm history. Inr history),
      send_message = (\<lambda>chat t. Inr (chat, t)),
      text_of = (\<lambda>response.
        Inr (concat (map (\<lambda>c. gemini_role c @ '':'' @ concat (parts c) @ '';'')
                         (fst response))
             @ snd response))\<rparr>"

section \<open>Properties of the conversion and of one turn\<close>

lemma convert_messages_acc:
  "convert_messages msgs acc = acc @ map spec_turn (filter declared_role msgs)"
  by (induction msgs arbitrary: acc) (auto simp: spec_turn_def spec_role_def declared_role_def)

lemma convert_messages_filter:
  "convert_messages msgs [] = map spec_turn (filter declared_role msgs)"
  by (simp add: convert_messages_acc)

lemma filter_declared_id: "declared_roles log \<Longrightarrow> filter declared_role log = log"
  by (simp add: declared_roles_def list_all_iff)

lemma convert_messages_declared:
  "declared_roles log \<Longrightarrow> convert_messages log [] = map spec_turn log"
  by (simp add: convert_messages_filter filter_declared_id)

lemma history_arg_butlast: "history_arg xs = butlast xs"
  by (cases xs rule: rev_cases) (auto simp: history_arg_def)

lemma pop_snoc: "pop (msgs @ [m]) = Inr msgs"
  by (simp add: pop_def)

lemma last_content_snoc: "last_content (msgs @ [m]) = Inr (content m)"
  by (simp add: last_content_def)

lemma declared_roles_butlast: "declared_roles log \<Longrightarrow> declared_roles (butlast log)"
  by (auto simp: declared_roles_def list_all_iff dest: in_set_butlastD)

text \<open>The try block fails exactly when one of its SDK calls fails.\<close>

lemma generate_response_ok_iff:
  "msgs \<noteq> [] \<Longrightarrow>
   remote_calls_succeed api model cfg msgs
     \<longleftrightarrow> (\<exists>msgs'. snd (generate_response api model cfg msgs) = Inr msgs')"
  by (auto simp: remote_calls_succeed_def generate_response_def last_content_def Let_def
      split: sum.splits)

lemma generate_response_success:
  "snd (generate_response api model cfg msgs) = Inr msgs' \<Longrightarrow>
   \<exists>t. msgs' = msgs @ [\<lparr>role = ''assistant'', content = t\<rparr>]"
  by (auto simp: generate_response_def Let_def split: sum.splits)

lemma generate_response_failure_no_reply:
  "snd (generate_response api model cfg msgs) = Inl e \<Longrightarrow>
   ChatMarkdown r t \<notin> set (fst (generate_response api model cfg msgs))"
  by (auto simp: generate_response_def Let_def split: sum.splits)

lemma turn_flow_failure:
  assumes "gemini_configured s"
    and "generate_response api model cfg (messages s @ [\<lparr>role = ''user'', content = prompt\<rparr>])
           = (evs, Inl e)"
  shows "turn_flow api model cfg prompt s
           = Inr (s, ChatMarkdown ''user'' prompt # evs @ [StError (error_msg e)])"
  using assms by (simp add: turn_flow_def Let_def pop_snoc)

lemma turn_flow_success:
  assumes "gemini_configured s"
    and "generate_response api model cfg (messages s @ [\<lparr>role = ''user'', content = prompt\<rparr>])
           = (evs, Inr msgs')"
  shows "turn_flow api model cfg prompt s
           = Inr (s\<lparr>messages := msgs'\<rparr>, ChatMarkdown ''user'' prompt # evs)"
  using assms by (simp add: turn_flow_def Let_def)

lemma turn_flow_not_configured:
  assumes "\<not> gemini_configured s"
  shows "turn_flow api model cfg prompt s
           = Inr (s, [ChatMarkdown ''user'' prompt, StError no_key_text])"
  using assms by (simp add: turn_flow_def Let_def pop_snoc)

lemma turn_flow_never_raises:
  "\<exists>s' evs. turn_flow api model cfg prompt s = Inr (s', evs)"
proof (cases "gemini_configured s")
  case False
  then show ?thesis by (simp add: turn_flow_not_configured)
next
  case True
  obtain evs r where g:
    "generate_response api model cfg (messages s @ [\<lparr>role = ''user'', content = prompt\<rparr>])
       = (evs, r)"
    by (cases "generate_response api model cfg (messages s @ [\<lparr>role = ''user'', content = prompt\<rparr>])")
  show ?thesis
  proof (cases r)
    case (Inl e)
    with True g show ?thesis by (simp add: turn_flow_failure)
  next
    case (Inr msgs')
    with True g show ?thesis by (simp add: turn_flow_success)
  qed
qed

section \<open>Rollback on failure\<close>

text \<open>
  Claim C1. With the client configured, whenever one of the SDK calls of the turn
  raises (model construction, \<^verbatim>\<open>start_chat\<close> on the projected history,
  \<^verbatim>\<open>send_message\<close> or the read of the reply's text), the block ends with the
  session state it started from: the user message appended first has been popped,
  no assistant message was appended or rendered, the log has its former length,
  and the last thing rendered is the error.
\<close>
theorem turn_flow_rollback_on_failure:
  assumes "gemini_configured s"
    and "\<not> remote_calls_succeed api model cfg
             (messages s @ [\<lparr>role = ''user'', content = prompt\<rparr>])"
  shows "\<exists>s' evs e. turn_flow api model cfg prompt s = Inr (s', evs)
           \<and> s' = s
           \<and> length (messages s') = length (messages s)
           \<and> (\<forall>t. ChatMarkdown ''assistant'' t \<notin> set evs)
           \<and> last evs = StError (error_msg e)"
proof -
  let ?msgs = "messages s @ [\<lparr>role = ''user'', content = prompt\<rparr>]"
  obtain evs r where g: "generate_response api model cfg ?msgs = (evs, r)"
    by (cases "generate_response api model cfg ?msgs")
  have "\<not> (\<exists>msgs'. snd (generate_response api model cfg ?msgs) = Inr msgs')"
    using assms(2) generate_response_ok_iff [of ?msgs api model cfg] by simp
  with g obtain e where r: "r = Inl e"
    by (cases r) auto
  from g r have flow: "turn_flow api model cfg prompt s
      = Inr (s, ChatMarkdown ''user'' prompt # evs @ [StError (error_msg e)])"
    using assms(1) by (simp add: turn_flow_failure)
  have "ChatMarkdown ''assistant'' t \<notin> set evs" for t
    using generate_response_failure_no_reply [of api model cfg ?msgs e "''assistant''" t] g r
    by simp
  with flow show ?thesis by auto
qed

theorem turn_flow_rollback_on_failure_witness:
  "turn_flow quota_api ''gemini-pro'' () ''Hi'' \<lparr>messages = [], gemini_configured = True\<rparr>
     = Inr (\<lparr>messages = [], gemini_configured = True\<rparr>,
            [ChatMarkdown ''user'' ''Hi'', GenerativeModelCall ''gemini-pro'',
             StartChatCall [], SendMessageCall ''Hi'',
             StError (error_msg (Exception ''429 quota exceeded''))])
   \<and> (\<exists>evs. turn_flow no_model_api ''gemini-pro'' () ''again''
          \<lparr>messages = [\<lparr>role = ''user'', content = ''Hi''\<rparr>,
                        \<lparr>role = ''assistant'', content = ''Hello''\<rparr>],
            gemini_configured = True\<rparr>
        = Inr (\<lparr>messages = [\<lparr>role = ''user'', content = ''Hi''\<rparr>,
                        \<lparr>role = ''assistant'', content = ''Hello''\<rparr>],
            gemini_configured = True\<rparr>, evs))"
  using turn_flow_rollback_on_failure
          [of "\<lparr>messages = [], gemini_configured = True\<rparr>" quota_api "''gemini-pro''" "()" "''Hi''"]
        turn_flow_rollback_on_failure
          [of "\<lparr>messages = [\<lparr>role = ''user'', content = ''Hi''\<rparr>,
                        \<lparr>role = ''assistant'', content = ''Hello''\<rparr>],
            gemini_configured = True\<rparr>" no_model_api "''gemini-pro''" "()" "''again''"]
  by (simp add: remote_calls_succeed_def quota_api_def no_model_api_def turn_flow_def
      generate_response_def history_arg_def last_content_def pop_def Let_def)

section \<open>Missing API key\<close>

text \<open>
  Claim C6. For every submitted prompt, when the client is not configured the
  block makes no SDK call, renders the configuration error and pops the user
  message it appended: the session state, and so the log, is what it was before
  the submission.
\<close>
theorem turn_flow_without_key:
  assumes "\<not> gemini_configured s"
  shows "\<exists>evs. turn_flow api model cfg prompt s = Inr (s, evs)
           \<and> filter is_remote_call evs = []
           \<and> evs = [ChatMarkdown ''user'' prompt, StError no_key_text]"
  using assms by (simp add: turn_flow_not_configured)

theorem turn_flow_without_key_witness:
  "\<not> init_gemini_client None None
   \<and> turn_flow quota_api ''gemini-pro'' () ''Hi''
       \<lparr>messages = [], gemini_configured = init_gemini_client None None\<rparr>
     = Inr (\<lparr>messages = [], gemini_configured = False\<rparr>,
            [ChatMarkdown ''user'' ''Hi'', StError no_key_text])"
  using turn_flow_without_key
          [of "\<lparr>messages = [], gemini_configured = init_gemini_client None None\<rparr>"
              quota_api "''gemini-pro''" "()" "''Hi''"]
  by (simp add: init_gemini_client_def py_or_def)

section \<open>Clearing the chat\<close>

text \<open>
  Claim C8. Whatever the session state was, a click on the Clear Chat button leaves
  the log empty; the other key of the session state is untouched.
\<close>
theorem clear_chat_resets:
  "messages (clear_chat True s) = []
   \<and> gemini_configured (clear_chat True s) = gemini_configured s"
  by (simp add: clear_chat_def)

theorem clear_chat_resets_witness:
  "messages (clear_chat True
      \<lparr>messages = [\<lparr>role = ''user'', content = ''Hi''\<rparr>,
                   \<lparr>role = ''assistant'', content = ''Hello''\<rparr>],
       gemini_configured = True\<rparr>) = []"
  using clear_chat_resets
          [of "\<lparr>messages = [\<lparr>role = ''user'', content = ''Hi''\<rparr>,
                   \<lparr>role = ''assistant'', content = ''Hello''\<rparr>],
       gemini_configured = True\<rparr>"]
  by simp

section \<open>The history handed to the SDK\<close>

lemma projectHistory_True_butlast:
  "projectHistory log True = butlast (projectHistory log False)"
  by (simp add: projectHistory_def history_arg_butlast)

lemma projectHistory_declared:
  "declared_roles log \<Longrightarrow> projectHistory log False = map spec_turn log"
  by (simp add: projectHistory_def convert_messages_declared)

lemma generate_response_calls_prefix:
  assumes "msgs \<noteq> []"
    and "GenerativeModel api model cfg = Inr gm"
    and "start_chat api gm (history_arg (convert_messages msgs [])) = Inr chat"
  shows "\<exists>rest. fst (generate_response api model cfg msgs)
           = GenerativeModelCall model #
              StartChatCall (history_arg (convert_messages msgs [])) #
              SendMessageCall (content (last msgs)) # rest"
proof -
  have lc: "last_content msgs = Inr (content (last msgs))"
    using assms(1) by (simp add: last_content_def)
  show ?thesis
  proof (cases "send_message api chat (content (last msgs))")
    case (Inl e)
    then show ?thesis
      by (simp add: generate_response_def assms(2) assms(3) lc Let_def)
  next
    case (Inr response)
    then show ?thesis
      by (cases "text_of api response")
         (simp_all add: generate_response_def assms(2) assms(3) lc Let_def)
  qed
qed

lemma start_chat_event:
  assumes "msgs \<noteq> []"
    and "StartChatCall h \<in> set (fst (generate_response api model cfg msgs))"
  shows "h = projectHistory msgs True"
  using assms
  by (auto simp: generate_response_def projectHistory_def last_content_def Let_def
      split: sum.splits)

lemma send_message_event:
  assumes "msgs \<noteq> []"
    and "SendMessageCall t \<in> set (fst (generate_response api model cfg msgs))"
  shows "t = content (last msgs)"
  using assms
  by (auto simp: generate_response_def last_content_def Let_def split: sum.splits)

text \<open>
  Claim C2, as the source has it. For every log, \<open>projectHistory\<close> with
  \<open>excludeLast\<close> is the projection without \<open>excludeLast\<close> less its last
  element. For a log of user and assistant messages that is the projection of the
  log without its final entry, which for a log of more than one entry is what the
  specification says. For a log of at most one entry the result is the empty list,
  which for a one-entry log is not the projection without \<open>excludeLast\<close>.
\<close>

theorem projectHistory_excludeLast:
  "projectHistory log True = butlast (projectHistory log False)
   \<and> (length log \<le> 1 \<longrightarrow> projectHistory log True = [])
   \<and> (declared_roles log \<longrightarrow>
         projectHistory log True = projectHistory (butlast log) False)
   \<and> (declared_roles log \<and> 1 < length log \<longrightarrow>
         projectHistory log True = spec_projectHistory log True)"
proof -
  have a: "projectHistory log True = butlast (projectHistory log False)"
    by (rule projectHistory_True_butlast)
  have len: "length (projectHistory log False) \<le> length log"
    by (simp add: projectHistory_def convert_messages_filter)
  have b: "projectHistory log True = []" if "length log \<le> 1"
  proof -
    from len that have "length (projectHistory log False) \<le> 1"
      by linarith
    then have "butlast (projectHistory log False) = []"
      by (cases "projectHistory log False") auto
    with a show ?thesis by simp
  qed
  have c: "projectHistory log True = map spec_turn (butlast log)" if "declared_roles log"
    using that by (simp add: a projectHistory_declared map_butlast)
  have d: "projectHistory (butlast log) False = map spec_turn (butlast log)"
    if "declared_roles log"
    using that by (simp add: projectHistory_declared declared_roles_butlast)
  show ?thesis
    using a b c d by (simp add: spec_projectHistory_def)
qed

theorem projectHistory_excludeLast_witness:
  "projectHistory [\<lparr>role = ''user'', content = ''Hi''\<rparr>,
                   \<lparr>role = ''assistant'', content = ''Hello''\<rparr>,
                   \<lparr>role = ''user'', content = ''How are you?''\<rparr>] True
     = [\<lparr>gemini_role = ''user'', parts = [''Hi'']\<rparr>,
        \<lparr>gemini_role = ''model'', parts = [''Hello'']\<rparr>]
   \<and> projectHistory [\<lparr>role = ''user'', content = ''Hi''\<rparr>] True = []"
  using projectHistory_excludeLast
          [of "[\<lparr>role = ''user'', content = ''Hi''\<rparr>,
                \<lparr>role = ''assistant'', content = ''Hello''\<rparr>,
                \<lparr>role = ''user'', content = ''How are you?''\<rparr>]"]
        projectHistory_excludeLast [of "[\<lparr>role = ''user'', content = ''Hi''\<rparr>]"]
  by (simp add: declared_roles_def declared_role_def spec_projectHistory_def spec_turn_def
      spec_role_def projectHistory_def history_arg_def)

text \<open>
  The claim as stated fails on a one-entry log: the source passes
  \<^verbatim>\<open>[]\<close> to \<^verbatim>\<open>start_chat\<close> there, not the single mapped element.
\<close>

theorem projectHistory_excludeLast_one_counterexample:
  "projectHistory [\<lparr>role = ''user'', content = ''Hi''\<rparr>] True
     \<noteq> projectHistory [\<lparr>role = ''user'', content = ''Hi''\<rparr>] False"
  by (simp add: projectHistory_def history_arg_def)

lemma generate_response_result:
  assumes "msgs \<noteq> []"
    and "GenerativeModel api model cfg = Inr gm"
  shows "snd (generate_response api model cfg msgs)
           = (case start_chat api gm (projectHistory msgs True) of
                Inl e \<Rightarrow> Inl e
              | Inr chat \<Rightarrow>
                  (case send_message api chat (content (last msgs)) of
                     Inl e \<Rightarrow> Inl e
                   | Inr response \<Rightarrow>
                       (case text_of api response of
                          Inl e \<Rightarrow> Inl e
                        | Inr reply \<Rightarrow>
                            Inr (msgs @ [\<lparr>role = ''assistant'', content = reply\<rparr>]))))"
proof -
  have lc: "last_content msgs = Inr (content (last msgs))"
    using assms(1) by (simp add: last_content_def)
  show ?thesis
    by (simp add: generate_response_def projectHistory_def assms(2) lc Let_def
        split: sum.split)
qed

text \<open>
  Claim C3. For every non-empty log (in particular one whose last entry is a user
  turn), once the model object is constructed, the outcome of the try block is what
  the SDK returns when \<^verbatim>\<open>start_chat\<close> is applied to \<open>projectHistory log True\<close>
  and \<^verbatim>\<open>send_message\<close> of the chat it returns to the content of the log's last
  message: an exception of either call or of the read of the text is the block's
  exception, and the text read is the content of the assistant message appended.
  The calls are made in that order with exactly these arguments, and no other
  history or text is ever passed. The witness is Scenario B with an SDK that
  records its arguments in the reply.
\<close>

theorem generate_response_history_and_message:
  assumes "msgs \<noteq> []"
    and "GenerativeModel api model cfg = Inr gm"
  shows "snd (generate_response api model cfg msgs)
           = (case start_chat api gm (projectHistory msgs True) of
                Inl e \<Rightarrow> Inl e
              | Inr chat \<Rightarrow>
                  (case send_message api chat (content (last msgs)) of
                     Inl e \<Rightarrow> Inl e
                   | Inr response \<Rightarrow>
                       (case text_of api response of
                          Inl e \<Rightarrow> Inl e
                        | Inr reply \<Rightarrow>
                            Inr (msgs @ [\<lparr>role = ''assistant'', content = reply\<rparr>]))))
         \<and> (\<forall>chat. start_chat api gm (projectHistory msgs True) = Inr chat \<longrightarrow>
               take 3 (fst (generate_response api model cfg msgs))
                 = [GenerativeModelCall model,
                    StartChatCall (projectHistory msgs True),
                    SendMessageCall (content (last msgs))])
         \<and> (\<forall>h. StartChatCall h \<in> set (fst (generate_response api model cfg msgs))
                \<longrightarrow> h = projectHistory msgs True)
         \<and> (\<forall>t. SendMessageCall t \<in> set (fst (generate_response api model cfg msgs))
                \<longrightarrow> t = content (last msgs))"
proof -
  have ph: "projectHistory msgs True = history_arg (convert_messages msgs [])"
    by (simp add: projectHistory_def)
  have first: "\<forall>chat. start_chat api gm (projectHistory msgs True) = Inr chat \<longrightarrow>
               take 3 (fst (generate_response api model cfg msgs))
                 = [GenerativeModelCall model,
                    StartChatCall (projectHistory msgs True),
                    SendMessageCall (content (last msgs))]"
  proof (intro allI impI)
    fix chat
    assume sc: "start_chat api gm (projectHistory msgs True) = Inr chat"
    obtain rest where "fst (generate_response api model cfg msgs)
           = GenerativeModelCall model #
              StartChatCall (projectHistory msgs True) #
              SendMessageCall (content (last msgs)) # rest"
      using generate_response_calls_prefix [of msgs api model cfg gm chat] assms sc
      unfolding ph by blast
    then show "take 3 (fst (generate_response api model cfg msgs))
           = [GenerativeModelCall model,
              StartChatCall (projectHistory msgs True),
              SendMessageCall (content (last msgs))]"
      by simp
  qed
  have calls: "\<forall>h. StartChatCall h \<in> set (fst (generate_response api model cfg msgs))
                \<longrightarrow> h = projectHistory msgs True"
  proof (intro allI impI)
    fix h
    assume "StartChatCall h \<in> set (fst (generate_response api model cfg msgs))"
    with assms(1) show "h = projectHistory msgs True"
      by (rule start_chat_event)
  qed
  have sends: "\<forall>t. SendMessageCall t \<in> set (fst (generate_response api model cfg msgs))
                \<longrightarrow> t = content (last msgs)"
  proof (intro allI impI)
    fix t
    assume "SendMessageCall t \<in> set (fst (generate_response api model cfg msgs))"
    with assms(1) show "t = content (last msgs)"
      by (rule send_message_event)
  qed
  from generate_response_result [OF assms] first calls sends show ?thesis
    by (intro conjI)
qed

theorem generate_response_history_and_message_witness:
  "snd (generate_response recording_api ''gemini-pro'' ()
       [\<lparr>role = ''user'', content = ''Hi''\<rparr>,
        \<lparr>role = ''assistant'', content = ''Hello''\<rparr>,
        \<lparr>role = ''user'', content = ''How are you?''\<rparr>])
     = Inr [\<lparr>role = ''user'', content = ''Hi''\<rparr>,
            \<lparr>role = ''assistant'', content = ''Hello''\<rparr>,
            \<lparr>role = ''user'', content = ''How are you?''\<rparr>,
            \<lparr>role = ''assistant'', content = ''user:Hi;model:Hello;How are you?''\<rparr>]
   \<and> take 3 (fst (generate_response recording_api ''gemini-pro'' ()
       [\<lparr>role = ''user'', content = ''Hi''\<rparr>,
        \<lparr>role = ''assistant'', content = ''Hello''\<rparr>,
        \<lparr>role = ''user'', content = ''How are you?''\<rparr>]))
     = [GenerativeModelCall ''gemini-pro'',
        StartChatCall [\<lparr>gemini_role = ''user'', parts = [''Hi'']\<rparr>,
                       \<lparr>gemini_role = ''model'', parts = [''Hello'']\<rparr>],
        SendMessageCall ''How are you?'']"
proof -
  have h: "projectHistory [\<lparr>role = ''user'', content = ''Hi''\<rparr>,
        \<lparr>role = ''assistant'', content = ''Hello''\<rparr>,
        \<lparr>role = ''user'', content = ''How are you?''\<rparr>] True
      = [\<lparr>gemini_role = ''user'', parts = [''Hi'']\<rparr>,
         \<lparr>gemini_role = ''model'', parts = [''Hello'']\<rparr>]"
    by (simp add: projectHistory_def history_arg_def)
  have gm: "GenerativeModel recording_api ''gemini-pro'' () = Inr ()"
    by (simp add: recording_api_def)
  have sc: "start_chat recording_api ()
         [\<lparr>gemini_role = ''user'', parts = [''Hi'']\<rparr>,
          \<lparr>gemini_role = ''model'', parts = [''Hello'']\<rparr>]
      = Inr [\<lparr>gemini_role = ''user'', parts = [''Hi'']\<rparr>,
             \<lparr>gemini_role = ''model'', parts = [''Hello'']\<rparr>]"
    by (simp add: recording_api_def)
  have sm: "send_message recording_api
         [\<lparr>gemini_role = ''user'', parts = [''Hi'']\<rparr>,
          \<lparr>gemini_role = ''model'', parts = [''Hello'']\<rparr>] ''How are you?''
      = Inr ([\<lparr>gemini_role = ''user'', parts = [''Hi'']\<rparr>,
              \<lparr>gemini_role = ''model'', parts = [''Hello'']\<rparr>], ''How are you?'')"
    by (simp add: recording_api_def)
  have tx: "text_of recording_api
         ([\<lparr>gemini_role = ''user'', parts = [''Hi'']\<rparr>,
           \<lparr>gemini_role = ''model'', parts = [''Hello'']\<rparr>], ''How are you?'')
      = Inr ''user:Hi;model:Hello;How are you?''"
    by (simp add: recording_api_def)
  have ne: "[\<lparr>role = ''user'', content = ''Hi''\<rparr>,
        \<lparr>role = ''assistant'', content = ''Hello''\<rparr>,
        \<lparr>role = ''user'', content = ''How are you?''\<rparr>] \<noteq> []"
    by simp
  show ?thesis
    using generate_response_history_and_message [OF ne gm]
    by (simp add: h sc sm tx)
qed

text \<open>
  Scenarios A and B through the whole block: the log afterwards and everything
  rendered and called.
\<close>

lemma scenario_B_turn_flow:
  "turn_flow (replying_api ''Fine'') ''gemini-pro'' () ''How are you?''
       \<lparr>messages = [\<lparr>role = ''user'', content = ''Hi''\<rparr>,
                    \<lparr>role = ''assistant'', content = ''Hello''\<rparr>],
        gemini_configured = True\<rparr>
     = Inr (\<lparr>messages = [\<lparr>role = ''user'', content = ''Hi''\<rparr>,
                         \<lparr>role = ''assistant'', content = ''Hello''\<rparr>,
                         \<lparr>role = ''user'', content = ''How are you?''\<rparr>,
                         \<lparr>role = ''assistant'', content = ''Fine''\<rparr>],
             gemini_configured = True\<rparr>,
            [ChatMarkdown ''user'' ''How are you?'',
             GenerativeModelCall ''gemini-pro'',
             StartChatCall [\<lparr>gemini_role = ''user'', parts = [''Hi'']\<rparr>,
                            \<lparr>gemini_role = ''model'', parts = [''Hello'']\<rparr>],
             SendMessageCall ''How are you?'',
             ResponseTextRead,
             ChatMarkdown ''assistant'' ''Fine''])"
  by (simp add: replying_api_def history_arg_def turn_flow_def
      generate_response_def last_content_def Let_def)

lemma scenario_A_turn_flow:
  "turn_flow (replying_api ''Hello'') ''gemini-pro'' () ''Hi''
       \<lparr>messages = [], gemini_configured = True\<rparr>
     = Inr (\<lparr>messages = [\<lparr>role = ''user'', content = ''Hi''\<rparr>,
                         \<lparr>role = ''assistant'', content = ''Hello''\<rparr>],
             gemini_configured = True\<rparr>,
            [ChatMarkdown ''user'' ''Hi'',
             GenerativeModelCall ''gemini-pro'',
             StartChatCall [],
             SendMessageCall ''Hi'',
             ResponseTextRead,
             ChatMarkdown ''assistant'' ''Hello''])"
  by (simp add: replying_api_def history_arg_def turn_flow_def
      generate_response_def last_content_def Let_def)

lemma scenario_B_recorded:
  "turn_flow recording_api ''gemini-pro'' () ''How are you?''
       \<lparr>messages = [\<lparr>role = ''user'', content = ''Hi''\<rparr>,
                    \<lparr>role = ''assistant'', content = ''Hello''\<rparr>],
        gemini_configured = True\<rparr>
     = Inr (\<lparr>messages = [\<lparr>role = ''user'', content = ''Hi''\<rparr>,
                         \<lparr>role = ''assistant'', content = ''Hello''\<rparr>,
                         \<lparr>role = ''user'', content = ''How are you?''\<rparr>,
                         \<lparr>role = ''assistant'',
                          content = ''user:Hi;model:Hello;How are you?''\<rparr>],
             gemini_configured = True\<rparr>,
            [ChatMarkdown ''user'' ''How are you?'',
             GenerativeModelCall ''gemini-pro'',
             StartChatCall [\<lparr>gemini_role = ''user'', parts = [''Hi'']\<rparr>,
                            \<lparr>gemini_role = ''model'', parts = [''Hello'']\<rparr>],
             SendMessageCall ''How are you?'',
             ResponseTextRead,
             ChatMarkdown ''assistant'' ''user:Hi;model:Hello;How are you?''])"
  by (simp add: recording_api_def history_arg_def turn_flow_def
      generate_response_def last_content_def Let_def)

text \<open>
  Claim C5. On a log of user and assistant messages \<open>projectHistory\<close> is the
  elementwise mapping of the specification: user to \<^verbatim>\<open>"user"\<close>, assistant to
  \<^verbatim>\<open>"model"\<close> (an injective renaming), each text the message's content, in the
  log's order and with the log's count, less the final element under
  \<open>excludeLast\<close>.
\<close>

theorem projectHistory_elementwise:
  assumes "declared_roles log"
  shows "projectHistory log False = map spec_turn log
         \<and> projectHistory log True = map spec_turn (butlast log)
         \<and> length (projectHistory log False) = length log
         \<and> length (projectHistory log True) = length log - 1
         \<and> (\<forall>i < length log.
               gemini_role (projectHistory log False ! i) = spec_role (role (log ! i))
               \<and> parts (projectHistory log False ! i) = [content (log ! i)])
         \<and> (\<forall>i < length log - 1. projectHistory log True ! i = projectHistory log False ! i)
         \<and> spec_role ''user'' = ''user'' \<and> spec_role ''assistant'' = ''model''
         \<and> inj_on spec_role {''user'', ''assistant''}"
proof -
  have a: "projectHistory log False = map spec_turn log"
    using assms by (rule projectHistory_declared)
  have b: "projectHistory log True = map spec_turn (butlast log)"
    using a by (simp add: projectHistory_True_butlast map_butlast)
  have c: "\<forall>i < length log - 1. projectHistory log True ! i = projectHistory log False ! i"
    by (simp add: projectHistory_True_butlast a nth_butlast)
  show ?thesis
    using a b c by (simp add: spec_turn_def spec_role_def)
qed

theorem projectHistory_elementwise_witness:
  "projectHistory [\<lparr>role = ''user'', content = ''Hi''\<rparr>,
                   \<lparr>role = ''assistant'', content = ''Hello''\<rparr>] False
     = [\<lparr>gemini_role = ''user'', parts = [''Hi'']\<rparr>,
        \<lparr>gemini_role = ''model'', parts = [''Hello'']\<rparr>]
   \<and> length (projectHistory [\<lparr>role = ''user'', content = ''Hi''\<rparr>,
                   \<lparr>role = ''assistant'', content = ''Hello''\<rparr>] True) = 1"
  using projectHistory_elementwise
          [of "[\<lparr>role = ''user'', content = ''Hi''\<rparr>,
                \<lparr>role = ''assistant'', content = ''Hello''\<rparr>]"]
  by (simp add: declared_roles_def declared_role_def spec_turn_def spec_role_def
      projectHistory_def history_arg_def)

text \<open>
  Claim C9. The loop has no branch for a role other than user and assistant: the
  projection is the mapping of the entries of the two declared roles only, an entry
  of any other role leaves no element, and the projection has the log's count
  exactly when every entry has a declared role.
\<close>

theorem projectHistory_drops_other_roles:
  "projectHistory log False = map spec_turn (filter declared_role log)
   \<and> (\<not> declared_role m \<longrightarrow>
        projectHistory (xs @ m # ys) False = projectHistory (xs @ ys) False)
   \<and> (length (projectHistory log False) = length log \<longleftrightarrow> declared_roles log)
   \<and> (\<not> declared_roles log \<longrightarrow> length (projectHistory log False) < length log)"
proof -
  have a: "projectHistory l False = map spec_turn (filter declared_role l)" for l
    by (simp add: projectHistory_def convert_messages_filter)
  have le: "length (filter declared_role log) \<le> length log"
    by simp
  have eq: "length (filter declared_role log) = length log \<longleftrightarrow> declared_roles log"
  proof
    assume len: "length (filter declared_role log) = length log"
    show "declared_roles log"
    proof (rule ccontr)
      assume "\<not> declared_roles log"
      then obtain x where "x \<in> set log" "\<not> declared_role x"
        by (auto simp: declared_roles_def list_all_iff)
      then have "length (filter declared_role log) < length log"
        by (rule length_filter_less)
      with len show False by simp
    qed
  next
    assume "declared_roles log"
    then show "length (filter declared_role log) = length log"
      by (simp add: filter_declared_id)
  qed
  have lt: "\<not> declared_roles log \<Longrightarrow> length (filter declared_role log) < length log"
    using le eq by linarith
  show ?thesis
    using eq lt by (simp add: a)
qed

theorem projectHistory_drops_other_roles_witness:
  "projectHistory [\<lparr>role = ''user'', content = ''Hi''\<rparr>,
                   \<lparr>role = ''system'', content = ''Be brief''\<rparr>,
                   \<lparr>role = ''assistant'', content = ''Hello''\<rparr>] False
     = [\<lparr>gemini_role = ''user'', parts = [''Hi'']\<rparr>,
        \<lparr>gemini_role = ''model'', parts = [''Hello'']\<rparr>]
   \<and> \<not> declared_roles [\<lparr>role = ''user'', content = ''Hi''\<rparr>,
                   \<lparr>role = ''system'', content = ''Be brief''\<rparr>,
                   \<lparr>role = ''assistant'', content = ''Hello''\<rparr>]"
  using projectHistory_drops_other_roles
          [of "[\<lparr>role = ''user'', content = ''Hi''\<rparr>,
                \<lparr>role = ''system'', content = ''Be brief''\<rparr>,
                \<lparr>role = ''assistant'', content = ''Hello''\<rparr>]"
              "\<lparr>role = ''system'', content = ''Be brief''\<rparr>"
              "[\<lparr>role = ''user'', content = ''Hi''\<rparr>]"
              "[\<lparr>role = ''assistant'', content = ''Hello''\<rparr>]"]
  by (simp add: declared_roles_def declared_role_def spec_turn_def spec_role_def
      projectHistory_def)

section \<open>Successful turns\<close>

lemma length_concat_replicate_pair:
  "length (concat (replicate n [a, b])) = 2 * n"
  by (induction n) simp_all

lemma turn_flow_all_calls_succeed:
  assumes "gemini_configured s"
    and "remote_calls_succeed api model cfg
           (messages s @ [\<lparr>role = ''user'', content = prompt\<rparr>])"
  shows "\<exists>t evs. turn_flow api model cfg prompt s
           = Inr (s\<lparr>messages := messages s @ [\<lparr>role = ''user'', content = prompt\<rparr>,
                                                \<lparr>role = ''assistant'', content = t\<rparr>]\<rparr>, evs)"
proof -
  let ?msgs = "messages s @ [\<lparr>role = ''user'', content = prompt\<rparr>]"
  have "?msgs \<noteq> []" by simp
  then obtain msgs' where ok: "snd (generate_response api model cfg ?msgs) = Inr msgs'"
    using assms(2) generate_response_ok_iff [of ?msgs api model cfg] by blast
  then obtain t where t: "msgs' = ?msgs @ [\<lparr>role = ''assistant'', content = t\<rparr>]"
    using generate_response_success [of api model cfg ?msgs msgs'] by blast
  obtain evs where "generate_response api model cfg ?msgs = (evs, Inr msgs')"
    using ok by (cases "generate_response api model cfg ?msgs") simp
  then have "turn_flow api model cfg prompt s
      = Inr (s\<lparr>messages := msgs'\<rparr>, ChatMarkdown ''user'' prompt # evs)"
    using assms(1) by (rule turn_flow_success [rotated])
  with t have "turn_flow api model cfg prompt s
      = Inr (s\<lparr>messages := messages s @ [\<lparr>role = ''user'', content = prompt\<rparr>,
                                           \<lparr>role = ''assistant'', content = t\<rparr>]\<rparr>,
             ChatMarkdown ''user'' prompt # evs)"
    by simp
  then show ?thesis by blast
qed

lemma run_turns_all_succeed:
  "all_succeed ts s \<Longrightarrow>
   \<exists>s'. run_turns ts s = Inr s'
     \<and> map role (messages s')
         = map role (messages s) @ concat (replicate (length ts) [''user'', ''assistant''])"
proof (induction ts arbitrary: s)
  case Nil
  then show ?case by simp
next
  case (Cons turn ts)
  obtain api model cfg prompt where turn: "turn = (api, model, cfg, prompt)"
    by (cases turn)
  from Cons.prems turn have conf: "gemini_configured s"
    and calls: "remote_calls_succeed api model cfg
           (messages s @ [\<lparr>role = ''user'', content = prompt\<rparr>])"
    by simp_all
  from turn_flow_all_calls_succeed [OF conf calls]
  obtain t evs where flow: "turn_flow api model cfg prompt s
       = Inr (s\<lparr>messages := messages s @ [\<lparr>role = ''user'', content = prompt\<rparr>,
                                            \<lparr>role = ''assistant'', content = t\<rparr>]\<rparr>, evs)"
    by blast
  let ?s1 = "s\<lparr>messages := messages s @ [\<lparr>role = ''user'', content = prompt\<rparr>,
                                            \<lparr>role = ''assistant'', content = t\<rparr>]\<rparr>"
  from Cons.prems turn flow have "all_succeed ts ?s1"
    by simp
  from Cons.IH [OF this] obtain s' where run: "run_turns ts ?s1 = Inr s'"
    and roles: "map role (messages s')
         = map role (messages ?s1) @ concat (replicate (length ts) [''user'', ''assistant''])"
    by blast
  from run flow turn have "run_turns (turn # ts) s = Inr s'"
    by simp
  moreover from roles have "map role (messages s')
      = map role (messages s) @ concat (replicate (length (turn # ts)) [''user'', ''assistant''])"
    by simp
  ultimately show ?case by blast
qed

lemma run_turns_never_raises: "\<exists>s'. run_turns ts s = Inr s'"
proof (induction ts arbitrary: s)
  case Nil
  show ?case by simp
next
  case (Cons turn ts)
  obtain api model cfg prompt where turn: "turn = (api, model, cfg, prompt)"
    by (cases turn)
  obtain s1 evs where "turn_flow api model cfg prompt s = Inr (s1, evs)"
    using turn_flow_never_raises [of api model cfg prompt s] by blast
  with turn Cons.IH [of s1] show ?case by simp
qed

text \<open>
  The block only ever stores the roles user and assistant: a log of declared roles
  stays one through every turn, so every log the script reaches from the empty log
  is one.
\<close>

lemma turn_flow_log_cases:
  assumes "turn_flow api model cfg prompt s = Inr (s', evs)"
  shows "s' = s
         \<or> (\<exists>t. s' = s\<lparr>messages := messages s @ [\<lparr>role = ''user'', content = prompt\<rparr>,
                                             \<lparr>role = ''assistant'', content = t\<rparr>]\<rparr>)"
proof (cases "gemini_configured s")
  case False
  with assms show ?thesis by (simp add: turn_flow_not_configured)
next
  case True
  let ?msgs = "messages s @ [\<lparr>role = ''user'', content = prompt\<rparr>]"
  obtain evs' r where g: "generate_response api model cfg ?msgs = (evs', r)"
    by (cases "generate_response api model cfg ?msgs")
  show ?thesis
  proof (cases r)
    case (Inl e)
    with True g assms show ?thesis by (simp add: turn_flow_failure)
  next
    case (Inr msgs')
    with g have "snd (generate_response api model cfg ?msgs) = Inr msgs'"
      by simp
    then obtain t where "msgs' = ?msgs @ [\<lparr>role = ''assistant'', content = t\<rparr>]"
      using generate_response_success [of api model cfg ?msgs msgs'] by blast
    moreover from True g Inr assms have "s' = s\<lparr>messages := msgs'\<rparr>"
      by (simp add: turn_flow_success)
    ultimately have "s' = s\<lparr>messages := messages s @ [\<lparr>role = ''user'', content = prompt\<rparr>,
                                             \<lparr>role = ''assistant'', content = t\<rparr>]\<rparr>"
      by simp
    then show ?thesis by blast
  qed
qed

lemma turn_flow_declared_roles:
  assumes "declared_roles (messages s)"
    and "turn_flow api model cfg prompt s = Inr (s', evs)"
  shows "declared_roles (messages s')"
  using turn_flow_log_cases [OF assms(2)] assms(1)
  by (auto simp: declared_roles_def declared_role_def)

lemma run_turns_declared_roles:
  "declared_roles (messages s) \<Longrightarrow> run_turns ts s = Inr s' \<Longrightarrow> declared_roles (messages s')"
proof (induction ts arbitrary: s)
  case Nil
  then show ?case by simp
next
  case (Cons turn ts)
  obtain api model cfg prompt where turn: "turn = (api, model, cfg, prompt)"
    by (cases turn)
  obtain s1 evs where flow: "turn_flow api model cfg prompt s = Inr (s1, evs)"
    using turn_flow_never_raises [of api model cfg prompt s] by blast
  with Cons.prems(1) have "declared_roles (messages s1)"
    by (rule turn_flow_declared_roles)
  moreover from Cons.prems(2) turn flow have "run_turns ts s1 = Inr s'"
    by simp
  ultimately show ?case by (rule Cons.IH)
qed

text \<open>
  Claim C4. Starting from an empty log, after any sequence of turns each run with
  the client configured and every SDK call returning, the log has twice as many
  entries as turns were run and its roles alternate user, assistant, starting with
  user.
\<close>

theorem successful_turns_alternate:
  assumes "messages s = []"
    and "all_succeed ts s"
  shows "\<exists>s'. run_turns ts s = Inr s'
           \<and> length (messages s') = 2 * length ts
           \<and> alternating (length ts) (messages s')"
proof -
  from run_turns_all_succeed [OF assms(2)] obtain s' where run: "run_turns ts s = Inr s'"
    and roles: "map role (messages s')
         = map role (messages s) @ concat (replicate (length ts) [''user'', ''assistant''])"
    by blast
  from roles assms(1) have alt: "map role (messages s')
      = concat (replicate (length ts) [''user'', ''assistant''])"
    by simp
  have "length (map role (messages s')) = 2 * length ts"
    unfolding alt by (rule length_concat_replicate_pair)
  then have "length (messages s') = 2 * length ts"
    by simp
  with run alt show ?thesis
    by (simp add: alternating_def)
qed

theorem successful_turns_alternate_witness:
  "run_turns [(replying_api ''Hello'', ''gemini-pro'', (), ''Hi''),
              (replying_api ''Fine'', ''gemini-1.5-pro-latest'', (), ''How are you?'')]
     \<lparr>messages = [], gemini_configured = True\<rparr>
   = Inr \<lparr>messages = [\<lparr>role = ''user'', content = ''Hi''\<rparr>,
                      \<lparr>role = ''assistant'', content = ''Hello''\<rparr>,
                      \<lparr>role = ''user'', content = ''How are you?''\<rparr>,
                      \<lparr>role = ''assistant'', content = ''Fine''\<rparr>],
          gemini_configured = True\<rparr>"
  using successful_turns_alternate
          [of "\<lparr>messages = [], gemini_configured = True\<rparr>"
              "[(replying_api ''Hello'', ''gemini-pro'', (), ''Hi''),
                (replying_api ''Fine'', ''gemini-1.5-pro-latest'', (), ''How are you?'')]"]
  by (simp add: replying_api_def remote_calls_succeed_def history_arg_def turn_flow_def
      generate_response_def last_content_def Let_def)

section \<open>Model discovery\<close>

lemma replace_prefix:
  "old \<noteq> [] \<Longrightarrow> replace old new (old @ s) = new @ replace old new s"
  by (cases old) simp_all

lemma replace_no_occurrence:
  "old \<noteq> [] \<Longrightarrow> \<forall>xs ys. s \<noteq> xs @ old @ ys \<Longrightarrow> replace old new s = s"
proof (induction s)
  case Nil
  then show ?case by simp
next
  case (Cons c cs)
  have no_prefix: "take (length old) (c # cs) \<noteq> old"
  proof
    assume "take (length old) (c # cs) = old"
    then have "c # cs = [] @ old @ drop (length old) (c # cs)"
      by (metis append_Nil append_take_drop_id)
    with Cons.prems(2) show False by blast
  qed
  have "\<forall>xs ys. cs \<noteq> xs @ old @ ys"
  proof (intro allI notI)
    fix xs ys
    assume "cs = xs @ old @ ys"
    then have "c # cs = (c # xs) @ old @ ys" by simp
    with Cons.prems(2) show False by blast
  qed
  with Cons.IH Cons.prems(1) have "replace old new cs = cs"
    by blast
  with Cons.prems(1) no_prefix show ?case
    by simp
qed

lemma strip_models_prefix:
  assumes "\<forall>xs ys. n \<noteq> xs @ ''models/'' @ ys"
  shows "replace ''models/'' '''' (''models/'' @ n) = n"
proof -
  have "replace ''models/'' '''' (''models/'' @ n) = '''' @ replace ''models/'' '''' n"
    by (rule replace_prefix) simp
  also have "replace ''models/'' '''' n = n"
    using assms by (intro replace_no_occurrence) simp_all
  finally show ?thesis by simp
qed

text \<open>
  Claim C7. \<^verbatim>\<open>get_available_models\<close> never raises and never returns an empty
  list. When the listing raises it returns the fallback list of the three
  identifiers. When the listing returns and some model has \<^verbatim>\<open>generateContent\<close>
  among its supported generation methods, it returns, in the listing's order, the
  names of exactly those models with every \<^verbatim>\<open>models/\<close> removed: a name that is
  \<^verbatim>\<open>models/\<close> followed by an identifier without that substring becomes the
  identifier, and a name without the substring is unchanged.
\<close>

theorem get_available_models_total_nonempty:
  "(\<exists>result. get_available_models list_models = Inr result \<and> result \<noteq> [])
   \<and> (\<forall>e. list_models = Inl e \<longrightarrow> get_available_models list_models = Inr fallback_models)
   \<and> (\<forall>models. list_models = Inr models
         \<and> filter (\<lambda>m. ''generateContent'' \<in> set (supported_generation_methods m)) models \<noteq> []
         \<longrightarrow> get_available_models list_models
             = Inr (map (\<lambda>m. replace ''models/'' '''' (name m))
                     (filter (\<lambda>m. ''generateContent'' \<in> set (supported_generation_methods m))
                        models)))
   \<and> (\<forall>n. (\<forall>xs ys. n \<noteq> xs @ ''models/'' @ ys) \<longrightarrow>
          replace ''models/'' '''' (''models/'' @ n) = n \<and> replace ''models/'' '''' n = n)
   \<and> fallback_models = [''gemini-pro'', ''gemini-1.5-pro-latest'', ''gemini-1.5-flash-latest'']
   \<and> length fallback_models = 3"
proof -
  have total: "\<exists>result. get_available_models list_models = Inr result \<and> result \<noteq> []"
    by (cases list_models)
       (auto simp: get_available_models_def get_available_models_try_def Let_def
          fallback_models_def)
  have failure: "\<forall>e. list_models = Inl e \<longrightarrow>
      get_available_models list_models = Inr fallback_models"
    by (simp add: get_available_models_def get_available_models_try_def)
  have filtered: "\<forall>models. list_models = Inr models
         \<and> filter (\<lambda>m. ''generateContent'' \<in> set (supported_generation_methods m)) models \<noteq> []
         \<longrightarrow> get_available_models list_models
             = Inr (map (\<lambda>m. replace ''models/'' '''' (name m))
                     (filter (\<lambda>m. ''generateContent'' \<in> set (supported_generation_methods m))
                        models))"
    by (simp add: get_available_models_def get_available_models_try_def available_of_def
        Let_def)
  have names: "\<forall>n. (\<forall>xs ys. n \<noteq> xs @ ''models/'' @ ys) \<longrightarrow>
          replace ''models/'' '''' (''models/'' @ n) = n \<and> replace ''models/'' '''' n = n"
  proof (intro allI impI conjI)
    fix n :: string
    assume n: "\<forall>xs ys. n \<noteq> xs @ ''models/'' @ ys"
    then show "replace ''models/'' '''' (''models/'' @ n) = n"
      by (rule strip_models_prefix)
    from n show "replace ''models/'' '''' n = n"
      by (intro replace_no_occurrence) simp_all
  qed
  have fb: "fallback_models
      = [''gemini-pro'', ''gemini-1.5-pro-latest'', ''gemini-1.5-flash-latest'']"
    by (simp add: fallback_models_def)
  have len: "length fallback_models = 3"
    by (simp add: fallback_models_def)
  from total failure filtered names fb len show ?thesis
    by (intro conjI)
qed

theorem get_available_models_total_nonempty_witness:
  "get_available_models
     (Inr [\<lparr>name = ''models/gemini-pro'',
            supported_generation_methods = [''generateContent'', ''countTokens'']\<rparr>,
           \<lparr>name = ''models/embedding-001'',
            supported_generation_methods = [''embedContent'']\<rparr>,
           \<lparr>name = ''models/gemini-1.5-flash'',
            supported_generation_methods = [''countTokens'', ''generateContent'']\<rparr>])
     = Inr [''gemini-pro'', ''gemini-1.5-flash'']
   \<and> get_available_models (Inl (Exception ''503 unavailable''))
     = Inr [''gemini-pro'', ''gemini-1.5-pro-latest'', ''gemini-1.5-flash-latest'']"
proof -
  let ?listing = "[\<lparr>name = ''models/gemini-pro'',
            supported_generation_methods = [''generateContent'', ''countTokens'']\<rparr>,
           \<lparr>name = ''models/embedding-001'',
            supported_generation_methods = [''embedContent'']\<rparr>,
           \<lparr>name = ''models/gemini-1.5-flash'',
            supported_generation_methods = [''countTokens'', ''generateContent'']\<rparr>]"
  have a: "get_available_models (Inr ?listing) = Inr [''gemini-pro'', ''gemini-1.5-flash'']"
    using get_available_models_total_nonempty [of "Inr ?listing"]
    by simp
  have fb: "fallback_models
      = [''gemini-pro'', ''gemini-1.5-pro-latest'', ''gemini-1.5-flash-latest'']"
    using get_available_models_total_nonempty [of "Inl (Exception ''503 unavailable'')"]
    by (elim conjE)
  have b: "get_available_models (Inl (Exception ''503 unavailable'')) = Inr fallback_models"
    using get_available_models_total_nonempty [of "Inl (Exception ''503 unavailable'')"]
    by (elim conjE) simp
  from a b show ?thesis
    unfolding fb by (intro conjI)
qed

text \<open>
  Claim C10. The fallback list is also what \<^verbatim>\<open>get_available_models\<close> returns
  when the listing returns but no model passes the capability filter, as it is when
  the listing raises; the fallback list has three entries, so the result is
  non-empty on both paths.
\<close>

theorem get_available_models_fallback_when_filter_empty:
  assumes "available_of models = []"
  shows "get_available_models (Inr models) = Inr fallback_models
         \<and> get_available_models (Inl e) = Inr fallback_models
         \<and> length fallback_models = 3
         \<and> fallback_models \<noteq> []"
  using assms
  by (simp add: get_available_models_def get_available_models_try_def Let_def
      fallback_models_def)

theorem get_available_models_fallback_when_filter_empty_witness:
  "get_available_models
     (Inr [\<lparr>name = ''models/embedding-001'',
            supported_generation_methods = [''embedContent'']\<rparr>])
     = Inr [''gemini-pro'', ''gemini-1.5-pro-latest'', ''gemini-1.5-flash-latest'']
   \<and> get_available_models (Inr [])
     = Inr [''gemini-pro'', ''gemini-1.5-pro-latest'', ''gemini-1.5-flash-latest'']"
  using get_available_models_fallback_when_filter_empty
          [of "[\<lparr>name = ''models/embedding-001'',
                 supported_generation_methods = [''embedContent'']\<rparr>]"]
        get_available_models_fallback_when_filter_empty [of "[]"]
  by (simp add: available_of_def fallback_models_def)

end
